theory Spec2Isabelle
  imports Complex_Main
begin

section \<open>JavaScript values used by lib/homeworkUtils.ts\<close>

text \<open>
  Strings are lists of 8-bit characters (the code points U+0000 to U+00FF). A JavaScript
  \<open>number\<close> is either \<open>NaN\<close> or an integer: the identifiers handled here are integers,
  and fractions and infinities are left out of the model.
\<close>

datatype number = NaN | Num int

fun isNaN :: "number \<Rightarrow> bool" where
  "isNaN NaN = True"
| "isNaN (Num n) = False"

text \<open>
  The white space that \<open>String.prototype.trim\<close> and \<open>parseInt\<close> skip, within the 8-bit
  range: TAB, LF, VT, FF, CR, SPACE and NO-BREAK SPACE.
\<close>

definition isWhiteSpace :: "char \<Rightarrow> bool" where
  "isWhiteSpace c =
     (c \<in> set [CHR 0x09, CHR 0x0A, CHR 0x0B, CHR 0x0C, CHR 0x0D, CHR 0x20, CHR 0xA0])"

definition trim :: "string \<Rightarrow> string" where
  "trim s = rev (dropWhile isWhiteSpace (rev (dropWhile isWhiteSpace s)))"

text \<open>
  \<open>toLowerCase\<close> maps A to Z and the capital letters of the Latin-1 block (U+00C0 to
  U+00DE without the multiplication sign U+00D7) to the letter 32 places further on.
  Bit 5 of each of these codes is clear, so adding 32 sets it.
\<close>

definition isUpperCase :: "char \<Rightarrow> bool" where
  "isUpperCase c =
     (let n = (of_char c :: nat)
      in (65 \<le> n \<and> n \<le> 90) \<or> (192 \<le> n \<and> n \<le> 222 \<and> n \<noteq> 215))"

definition lowerChar :: "char \<Rightarrow> char" where
  "lowerChar c =
     (if isUpperCase c
      then (case c of Char b0 b1 b2 b3 b4 b5 b6 b7 \<Rightarrow> Char b0 b1 b2 b3 b4 True b6 b7)
      else c)"

definition toLowerCase :: "string \<Rightarrow> string" where
  "toLowerCase s = map lowerChar s"

text \<open>
  A number is a double: an integer of more than 53 bits is rounded to the nearest
  integer with 53 significant bits, a tie going to the even one. \<open>excessBits m\<close> is the
  number of bits that \<open>m\<close> has beyond 53. Magnitudes that a double turns into an
  infinity, those near \<open>2 ^ 1024\<close> and beyond, are outside the model.
\<close>

function excessBits :: "nat \<Rightarrow> nat" where
  "excessBits m = (if m < 2 ^ 53 then 0 else Suc (excessBits (m div 2)))"
  by pat_completeness auto
termination
  by (relation "measure (\<lambda>m. m)") auto

declare excessBits.simps [simp del]

definition toDouble :: "int \<Rightarrow> int" where
  "toDouble i =
     (let m = nat \<bar>i\<bar>;
          e = excessBits m;
          q = m div 2 ^ e;
          r = m mod 2 ^ e;
          up = (2 ^ e < 2 * r \<or> (2 * r = 2 ^ e \<and> odd q))
      in sgn i * int ((if up then q + 1 else q) * 2 ^ e))"

text \<open>
  \<open>parseInt(s, 10)\<close>: skip leading white space, read an optional sign, take the longest
  run of decimal digits; no digit gives \<open>NaN\<close>. The value of the digits becomes a
  number, hence is rounded as above.
\<close>

definition isDigit :: "char \<Rightarrow> bool" where
  "isDigit c = (48 \<le> (of_char c :: nat) \<and> (of_char c :: nat) \<le> 57)"

definition digitValue :: "char \<Rightarrow> int" where
  "digitValue c = int (of_char c) - 48"

fun stripSign :: "string \<Rightarrow> int \<times> string" where
  "stripSign [] = (1, [])"
| "stripSign (c # cs) =
     (if c = CHR ''-'' then (- 1, cs)
      else if c = CHR ''+'' then (1, cs)
      else (1, c # cs))"

definition parseInt10 :: "string \<Rightarrow> number" where
  "parseInt10 s =
     (case stripSign (dropWhile isWhiteSpace s) of
        (sign, rest) \<Rightarrow>
          (case takeWhile isDigit rest of
             [] \<Rightarrow> NaN
           | d # ds \<Rightarrow>
               Num (sign * toDouble (foldl (\<lambda>a x. 10 * a + digitValue x) 0 (d # ds)))))"

text \<open>
  The parameter \<open>assignmentId: number | string\<close>, and the conversion every exported
  function starts with:
  \<^verbatim>\<open>typeof assignmentId === 'string' ? parseInt(assignmentId, 10) : assignmentId\<close>.
\<close>

datatype assignment_id = IdNumber number | IdString string

fun numericId :: "assignment_id \<Rightarrow> number" where
  "numericId (IdNumber n) = n"
| "numericId (IdString s) = parseInt10 s"

text \<open>
  What \<open>JSON.parse\<close> returns. \<open>JSON.parse\<close> itself belongs to the host and is a
  parameter \<open>JSON_parse\<close> of the functions below; \<open>None\<close> stands for its
  \<open>SyntaxError\<close>.
\<close>

datatype json =
    JNull
  | JBool bool
  | JNumber int
  | JString string
  | JArray "json list"
  | JObject "(string \<times> json) list"

text \<open>
  \<open>new Set(v)\<close> iterates \<open>v\<close>: an array gives its elements, a string its characters,
  \<open>null\<close> the empty set; any other value is not iterable and raises a \<open>TypeError\<close>
  (\<open>None\<close>). A set is kept as the list of the values put in.
\<close>

fun newSet :: "json \<Rightarrow> json list option" where
  "newSet (JArray xs) = Some xs"
| "newSet (JString s) = Some (map (\<lambda>c. JString [c]) s)"
| "newSet JNull = Some []"
| "newSet (JBool b) = None"
| "newSet (JNumber n) = None"
| "newSet (JObject kvs) = None"

text \<open>
  \<open>Set.prototype.has\<close> compares by SameValueZero: primitives by value, arrays and objects
  by identity. The two sides compared here come from two separately built arrays, so an
  array or object on one side is never the same object as a value on the other.
\<close>

fun sameValueZero :: "json \<Rightarrow> json \<Rightarrow> bool" where
  "sameValueZero (JArray xs) b = False"
| "sameValueZero (JObject kvs) b = False"
| "sameValueZero JNull b = (b = JNull)"
| "sameValueZero (JBool x) b = (b = JBool x)"
| "sameValueZero (JNumber n) b = (b = JNumber n)"
| "sameValueZero (JString s) b = (b = JString s)"

definition has :: "json list \<Rightarrow> json \<Rightarrow> bool" where
  "has S a = list_ex (sameValueZero a) S"

text \<open>
  \<open>v.every(p)\<close> exists on arrays only; on every other parsed value the call raises a
  \<open>TypeError\<close> (\<open>None\<close>).
\<close>

fun every :: "json \<Rightarrow> (json \<Rightarrow> bool) \<Rightarrow> bool option" where
  "every (JArray xs) p = Some (list_all p xs)"
| "every JNull p = None"
| "every (JBool b) p = None"
| "every (JNumber n) p = None"
| "every (JString s) p = None"
| "every (JObject kvs) p = None"

section \<open>Data model (mocks/mockAssignment.ts)\<close>

text \<open>
  Isabelle record fields share one name space, so a field that occurs in several
  interfaces carries a prefix (\<open>q_id\<close> for the \<open>id\<close> of a question, \<open>s_id\<close> for that of a
  session, and so on). Of \<open>HomeworkQuestion\<close> and \<open>AssignmentWithQuestions\<close> the fields
  the logic reads are kept; prompt texts, options, images and timestamps are display data.
\<close>

datatype question_type = MultipleChoice | ShortAnswer | LongAnswer | Tickbox | Grid

text \<open>\<open>correct_answer?: string | string[] | Record<string, number>\<close>\<close>

datatype correct_answer =
    AnswerText string
  | AnswerList "string list"
  | AnswerGrid "(string \<times> int) list"

record HomeworkQuestion =
  q_id :: string
  q_assignment_id :: int
  question_type :: question_type
  correct_answer :: "correct_answer option"
  points :: int

record AssignmentWithQuestions =
  a_id :: int
  title :: string
  questions :: "HomeworkQuestion list"
  total_points :: int

record HomeworkSession =
  s_id :: string
  s_student_id :: string
  s_assignment_id :: int
  current_question_index :: int
  is_completed :: bool
  started_at :: string
  completed_at :: "string option"
  last_activity :: string
  created_at :: string
  updated_at :: string

record User =
  u_id :: string
  email :: string
  role :: string

text \<open>The first and third question of \<open>mockAssignment\<close>, and \<open>mockSession\<close>, \<open>mockUser\<close>.\<close>

definition q1 :: HomeworkQuestion where
  "q1 = \<lparr> q_id = ''q1-uuid-mock'', q_assignment_id = 1, question_type = MultipleChoice,
          correct_answer = Some (AnswerText ''Water and sunlight''), points = 5 \<rparr>"

definition q3 :: HomeworkQuestion where
  "q3 = \<lparr> q_id = ''q3-uuid-mock'', q_assignment_id = 1, question_type = Tickbox,
          correct_answer = Some (AnswerList [''Tree'', ''Dog'', ''Flower'']), points = 10 \<rparr>"

definition mockSession :: HomeworkSession where
  "mockSession =
     \<lparr> s_id = ''session-123-uuid'', s_student_id = ''student-user-123'', s_assignment_id = 1,
       current_question_index = 0, is_completed = False,
       started_at = ''2025-09-30T10:00:00Z'', completed_at = None,
       last_activity = ''2025-09-30T10:15:00Z'', created_at = ''2025-09-30T10:00:00Z'',
       updated_at = ''2025-09-30T10:15:00Z'' \<rparr>"

definition mockUser :: User where
  "mockUser = \<lparr> u_id = ''student-user-123'', email = ''student@example.com'',
                role = ''student'' \<rparr>"

section \<open>Auto-grading inside saveHomeworkResponse (lines 193 to 223)\<close>

text \<open>
  \<open>correctAnswers\<close> of the tickbox branch: the array itself, or the parse of a string
  (\<open>'[]'\<close> when the string is empty), or \<open>[]\<close>.
\<close>

definition correctAnswersOf :: "(string \<Rightarrow> json option) \<Rightarrow> correct_answer option \<Rightarrow> json option" where
  "correctAnswersOf JSON_parse ca =
     (case ca of
        Some (AnswerList xs) \<Rightarrow> Some (JArray (map JString xs))
      | Some (AnswerText s) \<Rightarrow> JSON_parse (if s = [] then ''[]'' else s)
      | Some (AnswerGrid g) \<Rightarrow> Some (JArray [])
      | None \<Rightarrow> Some (JArray []))"

text \<open>
  The body of the inner \<open>try\<close>, statement by statement; \<open>None\<close> means that an exception
  reached the \<open>catch\<close>.
\<close>

definition tickboxIsCorrect :: "(string \<Rightarrow> json option) \<Rightarrow> HomeworkQuestion \<Rightarrow> string \<Rightarrow> bool option" where
  "tickboxIsCorrect JSON_parse question responseText =
     Option.bind (JSON_parse responseText) (\<lambda>studentAnswers.
     Option.bind (correctAnswersOf JSON_parse (correct_answer question)) (\<lambda>correctAnswers.
     Option.bind (newSet studentAnswers) (\<lambda>studentSet.
     Option.bind (newSet correctAnswers) (\<lambda>correctSet.
     Option.bind (every correctAnswers (has studentSet)) (\<lambda>hasAllCorrect.
     Option.bind (every studentAnswers (has correctSet)) (\<lambda>hasNoIncorrect.
     Some (hasAllCorrect \<and> hasNoIncorrect)))))))"

text \<open>
  The pair \<open>(isCorrect, pointsEarned)\<close>; \<open>isCorrect\<close> stays \<open>undefined\<close> (\<open>None\<close>) for the
  question types that are not graded.
\<close>

definition autoGrade :: "(string \<Rightarrow> json option) \<Rightarrow> HomeworkQuestion \<Rightarrow> string \<Rightarrow> bool option \<times> int" where
  "autoGrade JSON_parse question responseText =
     (if question_type question = MultipleChoice then
        (let correctAnswer =
               (case correct_answer question of Some (AnswerText s) \<Rightarrow> s | _ \<Rightarrow> '''');
             isCorrect = (toLowerCase (trim responseText) = toLowerCase (trim correctAnswer))
         in (Some isCorrect, if isCorrect then points question else 0))
      else if question_type question = Tickbox then
        (case tickboxIsCorrect JSON_parse question responseText of
           Some isCorrect \<Rightarrow> (Some isCorrect, if isCorrect then points question else 0)
         | None \<Rightarrow> (Some False, 0))
      else (None, 0))"

section \<open>The client the module talks to\<close>

text \<open>
  Every function of lib/homeworkUtils.ts reaches the backend through call chains on
  \<open>mockSupabase\<close>, cast to \<open>any\<close>, and then destructures a reply \<open>{ data, error }\<close>
  inside a \<open>try\<close>. A chain can therefore end in three ways: it throws or its promise
  rejects (\<open>Throws\<close>), or it resolves with some \<open>data\<close> (\<open>null\<close> is \<open>None\<close>) and some
  \<open>error\<close> (\<open>null\<close> is \<open>None\<close>).
\<close>

record PostgrestError =
  code :: string
  message :: string

datatype 'a reply = Throws | Reply "'a option" "PostgrestError option"

text \<open>The object literals handed to \<open>update\<close>, \<open>insert\<close> and \<open>upsert\<close>.\<close>

record session_patch =
  p_current_question_index :: "int option"
  p_last_activity :: "string option"
  p_is_completed :: "bool option"
  p_completed_at :: "string option"

record new_session =
  n_student_id :: string
  n_assignment_id :: int
  n_current_question_index :: int
  n_is_completed :: bool
  n_started_at :: string
  n_last_activity :: string

record responseData =
  r_student_id :: string
  r_question_id :: string
  r_assignment_id :: int
  response_text :: string
  r_is_correct :: "bool option"
  points_earned :: int
  r_session_id :: "string option"

record submission =
  sub_student_id :: string
  sub_assignment_id :: int
  score :: real
  submitted_at :: string

text \<open>
  One field per call chain of the module, over a backend state \<open>'s\<close> that the chain may
  change:
  \<^item> \<open>auth_getUser\<close>: \<open>auth.getUser()\<close>, the data being \<open>data.user\<close>;
  \<^item> \<open>sessions_select_maybeSingle\<close>:
    \<open>from('homework_sessions').select('*').eq('student_id', s).eq('assignment_id', n).maybeSingle()\<close>;
  \<^item> \<open>sessions_update_by_id\<close>: \<open>from('homework_sessions').update(p).eq('id', i)\<close>;
  \<^item> \<open>sessions_insert\<close>: \<open>from('homework_sessions').insert(d).select().single()\<close>;
  \<^item> \<open>responses_upsert\<close>: \<open>from('homework_responses').upsert(d, {onConflict:
    'student_id,question_id,assignment_id'})\<close>;
  \<^item> \<open>sessions_update_by_pair\<close>:
    \<open>from('homework_sessions').update(p).eq('student_id', s).eq('assignment_id', n)\<close>;
  \<^item> \<open>submissions_upsert\<close>: \<open>from('submissions').upsert(d, {onConflict:
    'student_id,assignment_id'})\<close>.
\<close>

record 's gateway =
  auth_getUser :: "'s \<Rightarrow> User reply \<times> 's"
  sessions_select_maybeSingle :: "string \<Rightarrow> int \<Rightarrow> 's \<Rightarrow> HomeworkSession reply \<times> 's"
  sessions_update_by_id :: "session_patch \<Rightarrow> string \<Rightarrow> 's \<Rightarrow> unit reply \<times> 's"
  sessions_insert :: "new_session \<Rightarrow> 's \<Rightarrow> HomeworkSession reply \<times> 's"
  responses_upsert :: "responseData \<Rightarrow> 's \<Rightarrow> unit reply \<times> 's"
  sessions_update_by_pair :: "session_patch \<Rightarrow> string \<Rightarrow> int \<Rightarrow> 's \<Rightarrow> unit reply \<times> 's"
  submissions_upsert :: "submission \<Rightarrow> 's \<Rightarrow> unit reply \<times> 's"

section \<open>lib/homeworkUtils.ts\<close>

text \<open>
  Each exported function takes the client \<open>gw\<close> and the backend state and returns its
  result with the new state. \<open>now\<close> is the reading of \<open>new Date().toISOString()\<close> during
  the call. Console output is not modelled: no value depends on it.
\<close>

definition noPatch :: session_patch where
  "noPatch = \<lparr> p_current_question_index = None, p_last_activity = None,
               p_is_completed = None, p_completed_at = None \<rparr>"

subsection \<open>getOrCreateHomeworkSession (lines 118 to 170)\<close>

text \<open>
  The function suspends at its first \<open>await\<close>, the lookup. \<open>getOrCreate_resume\<close> is the
  code that runs once the lookup has settled: lines 133 to 165 when it resolved, the
  outer \<open>catch\<close> when it threw. Other code, a second call included, can run between
  the two, so the state that the resumed code meets need not be the one the lookup
  left.
\<close>

definition getOrCreate_resume ::
  "'s gateway \<Rightarrow> string \<Rightarrow> string \<Rightarrow> int \<Rightarrow> HomeworkSession reply \<Rightarrow> 's \<Rightarrow> HomeworkSession option \<times> 's" where
  "getOrCreate_resume gw now studentId assignmentIdNum lookup st =
     (case lookup of
        Throws \<Rightarrow> (None, st)
      | Reply (Some existingSession) None \<Rightarrow>
          (case sessions_update_by_id gw (noPatch\<lparr>p_last_activity := Some now\<rparr>)
                  (s_id existingSession) st of
             (Throws, st') \<Rightarrow> (None, st')
           | (Reply d e, st') \<Rightarrow> (Some existingSession, st'))
      | Reply existingSession sessionError \<Rightarrow>
          (case sessions_insert gw
                  \<lparr> n_student_id = studentId, n_assignment_id = assignmentIdNum,
                    n_current_question_index = 0, n_is_completed = False,
                    n_started_at = now, n_last_activity = now \<rparr> st of
             (Throws, st') \<Rightarrow> (None, st')
           | (Reply newSession (Some createError), st') \<Rightarrow> (None, st')
           | (Reply newSession None, st') \<Rightarrow> (newSession, st')))"

definition getOrCreateHomeworkSession ::
  "'s gateway \<Rightarrow> string \<Rightarrow> string \<Rightarrow> assignment_id \<Rightarrow> 's \<Rightarrow> HomeworkSession option \<times> 's" where
  "getOrCreateHomeworkSession gw now studentId assignmentId st =
     (case numericId assignmentId of
        NaN \<Rightarrow> (None, st)
      | Num n \<Rightarrow>
          (case sessions_select_maybeSingle gw studentId n st of
             (lookup, st') \<Rightarrow> getOrCreate_resume gw now studentId n lookup st'))"

subsection \<open>saveHomeworkResponse (lines 178 to 254)\<close>

text \<open>\<open>if (sessionId)\<close> holds for a string that is present and not empty.\<close>

definition truthy :: "string option \<Rightarrow> string option" where
  "truthy s = (case s of None \<Rightarrow> None | Some t \<Rightarrow> (if t = [] then None else Some t))"

definition buildResponseData ::
  "(string \<Rightarrow> json option) \<Rightarrow> string \<Rightarrow> string \<Rightarrow> int \<Rightarrow> string \<Rightarrow> HomeworkQuestion \<Rightarrow> string option \<Rightarrow> responseData" where
  "buildResponseData JSON_parse studentId questionId assignmentIdNum responseText question sessionId =
     (case autoGrade JSON_parse question responseText of
        (isCorrect, pointsEarned) \<Rightarrow>
          \<lparr> r_student_id = studentId, r_question_id = questionId,
            r_assignment_id = assignmentIdNum, response_text = responseText,
            r_is_correct = isCorrect, points_earned = pointsEarned,
            r_session_id = truthy sessionId \<rparr>)"

definition saveHomeworkResponse ::
  "(string \<Rightarrow> json option) \<Rightarrow> 's gateway \<Rightarrow> string \<Rightarrow> string \<Rightarrow> assignment_id \<Rightarrow> string \<Rightarrow> HomeworkQuestion \<Rightarrow> string option \<Rightarrow> 's \<Rightarrow> bool \<times> 's" where
  "saveHomeworkResponse JSON_parse gw studentId questionId assignmentId responseText question sessionId st =
     (case numericId assignmentId of
        NaN \<Rightarrow> (False, st)
      | Num n \<Rightarrow>
          (case responses_upsert gw
                  (buildResponseData JSON_parse studentId questionId n responseText question sessionId) st of
             (Throws, st') \<Rightarrow> (False, st')
           | (Reply d (Some error), st') \<Rightarrow> (False, st')
           | (Reply d None, st') \<Rightarrow> (True, st')))"

subsection \<open>updateHomeworkSessionProgress (lines 261 to 291)\<close>

definition updateHomeworkSessionProgress ::
  "'s gateway \<Rightarrow> string \<Rightarrow> string \<Rightarrow> int \<Rightarrow> bool \<Rightarrow> 's \<Rightarrow> bool \<times> 's" where
  "updateHomeworkSessionProgress gw now sessionId currentQuestionIndex isCompleted st =
     (let updateData =
            (if isCompleted
             then \<lparr> p_current_question_index = Some currentQuestionIndex,
                    p_last_activity = Some now, p_is_completed = Some True,
                    p_completed_at = Some now \<rparr>
             else \<lparr> p_current_question_index = Some currentQuestionIndex,
                    p_last_activity = Some now, p_is_completed = None,
                    p_completed_at = None \<rparr>)
      in (case sessions_update_by_id gw updateData sessionId st of
            (Throws, st') \<Rightarrow> (False, st')
          | (Reply d (Some error), st') \<Rightarrow> (False, st')
          | (Reply d None, st') \<Rightarrow> (True, st')))"

subsection \<open>getStudentHomeworkResponsesMap (lines 296 to 304)\<close>

text \<open>
  \<open>mockResponsesStorage\<close> is a module-level object of type
  \<open>Record<string, string | string[]>\<close>; the function returns a copy of it and makes no
  call to the client.
\<close>

datatype answer = Text string | Choices "string list"

type_synonym storage = "string \<rightharpoonup> answer"

definition getStudentHomeworkResponsesMap :: "string \<Rightarrow> assignment_id \<Rightarrow> storage \<Rightarrow> storage" where
  "getStudentHomeworkResponsesMap studentId assignmentId mockResponsesStorage =
     mockResponsesStorage"

subsection \<open>submitHomeworkAssignment (lines 311 to 354)\<close>

definition submitHomeworkAssignment ::
  "'s gateway \<Rightarrow> string \<Rightarrow> string \<Rightarrow> assignment_id \<Rightarrow> 's \<Rightarrow> bool \<times> 's" where
  "submitHomeworkAssignment gw now studentId assignmentId st =
     (case numericId assignmentId of
        NaN \<Rightarrow> (False, st)
      | Num n \<Rightarrow>
          (case sessions_update_by_pair gw
                  (noPatch\<lparr>p_is_completed := Some True, p_completed_at := Some now\<rparr>)
                  studentId n st of
             (Throws, st1) \<Rightarrow> (False, st1)
           | (Reply d sessionError, st1) \<Rightarrow>
               (case submissions_upsert gw
                       \<lparr> sub_student_id = studentId, sub_assignment_id = n,
                         score = 0.75, submitted_at = now \<rparr> st1 of
                  (Throws, st2) \<Rightarrow> (False, st2)
                | (Reply d' (Some submissionError), st2) \<Rightarrow> (False, st2)
                | (Reply d' None, st2) \<Rightarrow> (True, st2))))"

section \<open>mocks/mockDatabase.ts\<close>

text \<open>
  The stub client keeps one piece of state, \<open>mockResponsesStorage\<close>. Its calls to
  \<open>simulateNetworkDelay\<close> and \<open>simulateNetworkFailure\<close> are commented out, so a chain of
  the stub fails only where the chain itself is ill-formed.

  \<open>mock_select_eq_maybeSingle\<close> is \<open>from(table).select().eq(c, v).maybeSingle()\<close>,
  \<open>mock_insert_select_single\<close> is \<open>from('homework_sessions').insert(data).select().single()\<close>
  with the spread \<open>{ ...mockSession, ...data }\<close>, \<open>mock_update_eq\<close> is
  \<open>from(table).update(data).eq(c, v)\<close>, and \<open>mock_upsert\<close> is \<open>from(table).upsert(data)\<close>,
  of whose \<open>data\<close> only \<open>question_id\<close> and \<open>response_text\<close> are read.
\<close>

definition mock_select_eq_maybeSingle :: "string \<Rightarrow> HomeworkSession reply" where
  "mock_select_eq_maybeSingle table =
     (if table = ''homework_sessions'' then Reply (Some mockSession) None
      else Reply None None)"

definition mock_insert_select_single :: "new_session \<Rightarrow> HomeworkSession reply" where
  "mock_insert_select_single data =
     Reply (Some (mockSession
       \<lparr> s_student_id := n_student_id data, s_assignment_id := n_assignment_id data,
         current_question_index := n_current_question_index data,
         is_completed := n_is_completed data, started_at := n_started_at data,
         last_activity := n_last_activity data \<rparr>)) None"

definition mock_update_eq :: "unit reply" where
  "mock_update_eq = Reply None None"

text \<open>
  \<open>mockResponsesStorage[key] = text\<close> on the plain object. The one key that the
  prototype of a plain object answers with a setter is \<open>__proto__\<close>, and that setter
  ignores a string: under this key nothing is stored. Every other key becomes a
  property of the object itself.
\<close>

definition assignProperty :: "string \<Rightarrow> string \<Rightarrow> storage \<Rightarrow> storage" where
  "assignProperty key text_value mockResponsesStorage =
     (if key = ''__proto__'' then mockResponsesStorage
      else mockResponsesStorage(key \<mapsto> Text text_value))"

definition mock_upsert :: "string \<Rightarrow> string \<Rightarrow> string \<Rightarrow> storage \<Rightarrow> unit reply \<times> storage" where
  "mock_upsert table question_id data_response_text mockResponsesStorage =
     (Reply None None,
      if table = ''homework_responses''
      then assignProperty question_id data_response_text mockResponsesStorage
      else mockResponsesStorage)"

text \<open>
  The chains of the module on the stub. Two of them apply \<open>.eq\<close> twice. The object that
  \<open>select().eq(c, v)\<close> returns has the methods \<open>single\<close>, \<open>maybeSingle\<close>, \<open>limit\<close> and
  \<open>order\<close> and no \<open>eq\<close>; \<open>update(data).eq(c, v)\<close> is an \<open>async\<close> function and returns a
  promise, which has no \<open>eq\<close> either. In both chains the second \<open>.eq\<close> raises a
  \<open>TypeError\<close> inside the caller's \<open>try\<close>, before any state is touched.
\<close>

definition mockSupabase :: "storage gateway" where
  "mockSupabase =
     \<lparr> auth_getUser = (\<lambda>st. (Reply (Some mockUser) None, st)),
       sessions_select_maybeSingle = (\<lambda>studentId n st. (Throws, st)),
       sessions_update_by_id = (\<lambda>p i st. (mock_update_eq, st)),
       sessions_insert = (\<lambda>data st. (mock_insert_select_single data, st)),
       responses_upsert =
         (\<lambda>data st. mock_upsert ''homework_responses'' (r_question_id data) (response_text data) st),
       sessions_update_by_pair = (\<lambda>p studentId n st. (Throws, st)),
       submissions_upsert = (\<lambda>data st. (Reply None None, st)) \<rparr>"

section \<open>A backend that keeps rows and can fail\<close>

text \<open>
  Modelled from the spec: the Store Gateway of sections 4.1 and 6, which the repository
  replaces by the stub above. It keeps the three tables as lists of rows and offers
  the four operation shapes: a point lookup by equality filter that returns one record
  or "not found" without an error, an insert that returns the created record, an update
  by equality filter, and an upsert on a conflict key. Every call can fail with a
  transient failure and then has no effect: \<open>faults\<close> lists what happens to the coming
  calls, one entry per call, and an empty list means that all is well. \<open>Timeout\<close> is a
  call that throws, as \<open>simulateNetworkFailure\<close> does, and \<open>Failure e\<close> is a reply
  \<open>{ data: null, error: e }\<close>.
\<close>

datatype fault = Healthy | Timeout | Failure PostgrestError

record store =
  homework_sessions :: "HomeworkSession list"
  homework_responses :: "responseData list"
  submissions :: "submission list"
  current_user :: "User option"
  faults :: "fault list"

definition request :: "store \<Rightarrow> (store \<Rightarrow> 'a option \<times> store) \<Rightarrow> 'a reply \<times> store" where
  "request st run =
     (case faults st of
        [] \<Rightarrow> (case run st of (d, st') \<Rightarrow> (Reply d None, st'))
      | Healthy # fs \<Rightarrow> (case run (st\<lparr>faults := fs\<rparr>) of (d, st') \<Rightarrow> (Reply d None, st'))
      | Timeout # fs \<Rightarrow> (Throws, st\<lparr>faults := fs\<rparr>)
      | Failure e # fs \<Rightarrow> (Reply None (Some e), st\<lparr>faults := fs\<rparr>))"

definition applyPatch :: "session_patch \<Rightarrow> HomeworkSession \<Rightarrow> HomeworkSession" where
  "applyPatch p r =
     r\<lparr> current_question_index :=
          (case p_current_question_index p of Some i \<Rightarrow> i | None \<Rightarrow> current_question_index r),
        last_activity := (case p_last_activity p of Some t \<Rightarrow> t | None \<Rightarrow> last_activity r),
        is_completed := (case p_is_completed p of Some b \<Rightarrow> b | None \<Rightarrow> is_completed r),
        completed_at := (case p_completed_at p of Some t \<Rightarrow> Some t | None \<Rightarrow> completed_at r) \<rparr>"

definition forPair :: "string \<Rightarrow> int \<Rightarrow> HomeworkSession \<Rightarrow> bool" where
  "forPair studentId n r = (s_student_id r = studentId \<and> s_assignment_id r = n)"

text \<open>The identifier of the k-th created session: \<open>session-\<close> followed by k strokes.\<close>

definition freshId :: "nat \<Rightarrow> string" where
  "freshId k = ''session-'' @ replicate k (CHR ''I'')"

definition createSession :: "new_session \<Rightarrow> nat \<Rightarrow> HomeworkSession" where
  "createSession d k =
     \<lparr> s_id = freshId k, s_student_id = n_student_id d, s_assignment_id = n_assignment_id d,
       current_question_index = n_current_question_index d, is_completed = n_is_completed d,
       started_at = n_started_at d, completed_at = None, last_activity = n_last_activity d,
       created_at = n_started_at d, updated_at = n_last_activity d \<rparr>"

fun upsertBy :: "('a \<Rightarrow> 'a \<Rightarrow> bool) \<Rightarrow> 'a \<Rightarrow> 'a list \<Rightarrow> 'a list" where
  "upsertBy same x [] = [x]"
| "upsertBy same x (y # ys) = (if same x y then x # ys else y # upsertBy same x ys)"

definition sameResponseKey :: "responseData \<Rightarrow> responseData \<Rightarrow> bool" where
  "sameResponseKey a b =
     (r_student_id a = r_student_id b \<and> r_question_id a = r_question_id b
      \<and> r_assignment_id a = r_assignment_id b)"

definition sameSubmissionKey :: "submission \<Rightarrow> submission \<Rightarrow> bool" where
  "sameSubmissionKey a b =
     (sub_student_id a = sub_student_id b \<and> sub_assignment_id a = sub_assignment_id b)"

text \<open>
  Modelled from the spec: the seven call chains of the module on this backend. The
  lookup returns the first session of the pair, the insert appends a session under a
  new identifier, an update patches every row its filter selects, and an upsert
  replaces the row with the same key or appends one. \<open>auth.getUser\<close> answers with the
  signed-in user and never fails.
\<close>

definition memoryGateway :: "store gateway" where
  "memoryGateway =
     \<lparr> auth_getUser = (\<lambda>st. (Reply (current_user st) None, st)),
       sessions_select_maybeSingle =
         (\<lambda>studentId n st. request st
            (\<lambda>s. (find (forPair studentId n) (homework_sessions s), s))),
       sessions_update_by_id =
         (\<lambda>p i st. request st
            (\<lambda>s. (None, s\<lparr>homework_sessions :=
                     map (\<lambda>r. if s_id r = i then applyPatch p r else r) (homework_sessions s)\<rparr>))),
       sessions_insert =
         (\<lambda>d st. request st
            (\<lambda>s. (Some (createSession d (length (homework_sessions s))),
                  s\<lparr>homework_sessions :=
                     homework_sessions s @ [createSession d (length (homework_sessions s))]\<rparr>))),
       responses_upsert =
         (\<lambda>d st. request st
            (\<lambda>s. (None, s\<lparr>homework_responses :=
                     upsertBy sameResponseKey d (homework_responses s)\<rparr>))),
       sessions_update_by_pair =
         (\<lambda>p studentId n st. request st
            (\<lambda>s. (None, s\<lparr>homework_sessions :=
                     map (\<lambda>r. if forPair studentId n r then applyPatch p r else r)
                       (homework_sessions s)\<rparr>))),
       submissions_upsert =
         (\<lambda>d st. request st
            (\<lambda>s. (None, s\<lparr>submissions := upsertBy sameSubmissionKey d (submissions s)\<rparr>))) \<rparr>"

subsection \<open>The same backend behind a network with latency\<close>

text \<open>
  Modelled from the spec: the store of sections 1 and 5, where a call takes between
  half a second and three seconds, as \<open>simulateNetworkDelay\<close> of the stub draws it. An
  upsert of a response is in flight from the call until it lands, and the writes in
  flight land in any order: \<open>land k\<close> is the arrival of the k-th of them, counted from
  0, which the backend then applies as its upsert. The reply \<open>{ error: null }\<close> is the one
  that the suspended caller receives once its write has landed. Every other call
  chain goes to the backend at once.
\<close>

record queued =
  backend :: store
  in_flight :: "responseData list"

definition onBackend :: "(store \<Rightarrow> 'a \<times> store) \<Rightarrow> queued \<Rightarrow> 'a \<times> queued" where
  "onBackend f st = (case f (backend st) of (r, b) \<Rightarrow> (r, st\<lparr>backend := b\<rparr>))"

definition queueingGateway :: "queued gateway" where
  "queueingGateway =
     \<lparr> auth_getUser = onBackend (auth_getUser memoryGateway),
       sessions_select_maybeSingle =
         (\<lambda>studentId n. onBackend (sessions_select_maybeSingle memoryGateway studentId n)),
       sessions_update_by_id = (\<lambda>p i. onBackend (sessions_update_by_id memoryGateway p i)),
       sessions_insert = (\<lambda>d. onBackend (sessions_insert memoryGateway d)),
       responses_upsert = (\<lambda>d st. (Reply None None, st\<lparr>in_flight := in_flight st @ [d]\<rparr>)),
       sessions_update_by_pair =
         (\<lambda>p studentId n. onBackend (sessions_update_by_pair memoryGateway p studentId n)),
       submissions_upsert = (\<lambda>d. onBackend (submissions_upsert memoryGateway d)) \<rparr>"

definition land :: "nat \<Rightarrow> queued \<Rightarrow> queued" where
  "land k st =
     (if k < length (in_flight st)
      then st\<lparr> backend := (backend st)\<lparr>homework_responses :=
                  upsertBy sameResponseKey (in_flight st ! k) (homework_responses (backend st))\<rparr>,
               in_flight := take k (in_flight st) @ drop (Suc k) (in_flight st) \<rparr>
      else st)"

section \<open>pages/student/assignment/[id].tsx: the answer and submit handlers\<close>

text \<open>\<open>QuestionOption = string | OptionWithImage\<close> and \<open>getOptionText\<close> of homeworkUtils.ts.\<close>

datatype QuestionOption = StringOption string | OptionWithImage string "string option"

fun getOptionText :: "QuestionOption \<Rightarrow> string" where
  "getOptionText (StringOption s) = s"
| "getOptionText (OptionWithImage t image_url) = t"

text \<open>The component's \<open>useState\<close> cells.\<close>

record page =
  assignment :: "AssignmentWithQuestions option"
  session :: "HomeworkSession option"
  currentQuestion :: int
  answers :: storage
  isSubmitting :: bool
  isSubmitted :: bool
  loading :: bool
  error :: "string option"

text \<open>\<open>assignment?.questions[currentQuestion]\<close>: an index outside the array gives \<open>undefined\<close>.\<close>

definition question :: "page \<Rightarrow> HomeworkQuestion option" where
  "question pg =
     (case assignment pg of
        None \<Rightarrow> None
      | Some a \<Rightarrow>
          (if 0 \<le> currentQuestion pg \<and> nat (currentQuestion pg) < length (questions a)
           then Some (questions a ! nat (currentQuestion pg)) else None))"

text \<open>
  \<open>handleAnswer\<close> (lines 129 to 153). The answer goes into the local \<open>answers\<close> first.
  A save that returns \<open>false\<close> leads to \<open>console.warn\<close> and nothing else, and an
  exception to \<open>console.error\<close> and nothing else.
\<close>

definition handleAnswer ::
  "(string \<Rightarrow> json option) \<Rightarrow> 's gateway \<Rightarrow> QuestionOption \<Rightarrow> page \<times> 's \<Rightarrow> page \<times> 's" where
  "handleAnswer JSON_parse gw option pst =
     (case pst of (pg, st) \<Rightarrow>
       (case (question pg, assignment pg, session pg) of
          (Some q, Some a, Some sess) \<Rightarrow>
            (let answer = getOptionText option;
                 pg1 = pg\<lparr>answers := (answers pg)(q_id q \<mapsto> Text answer)\<rparr>
             in (case auth_getUser gw st of
                   (Reply (Some user) e, st1) \<Rightarrow>
                     (case saveHomeworkResponse JSON_parse gw (u_id user) (q_id q)
                             (IdNumber (Num (a_id a))) answer q (Some (s_id sess)) st1 of
                        (success, st2) \<Rightarrow> (pg1, st2))
                 | (r, st1) \<Rightarrow> (pg1, st1)))
        | other \<Rightarrow> (pg, st)))"

text \<open>
  \<open>handleSubmit\<close> (lines 214 to 245). Here a failure is put on the page with \<open>setError\<close>.
  The \<open>finally\<close> block resets \<open>isSubmitting\<close> on every path that entered the \<open>try\<close>.
\<close>

definition submitFailed :: string where
  "submitFailed = ''Failed to submit assignment. Please try again.''"

definition handleSubmit :: "'s gateway \<Rightarrow> string \<Rightarrow> page \<times> 's \<Rightarrow> page \<times> 's" where
  "handleSubmit gw now pst =
     (case pst of (pg, st) \<Rightarrow>
       (case (assignment pg, session pg) of
          (Some a, Some sess) \<Rightarrow>
            (case auth_getUser gw st of
               (Throws, st1) \<Rightarrow> (pg\<lparr>error := Some submitFailed, isSubmitting := False\<rparr>, st1)
             | (Reply None e, st1) \<Rightarrow> (pg\<lparr>isSubmitting := False\<rparr>, st1)
             | (Reply (Some user) e, st1) \<Rightarrow>
                 (case submitHomeworkAssignment gw now (u_id user) (IdNumber (Num (a_id a))) st1 of
                    (True, st2) \<Rightarrow>
                      (case updateHomeworkSessionProgress gw now (s_id sess)
                              (currentQuestion pg) True st2 of
                         (ok, st3) \<Rightarrow> (pg\<lparr>isSubmitted := True, isSubmitting := False\<rparr>, st3))
                  | (False, st2) \<Rightarrow>
                      (pg\<lparr>error := Some submitFailed, isSubmitting := False\<rparr>, st2)))
        | other \<Rightarrow> (pg, st)))"

text \<open>
  What \<open>loadAssignmentData\<close> does with the result of \<open>getOrCreateHomeworkSession\<close> (lines
  86 to 94): a session that is completed puts the page into its submitted state, which
  is rendered as "Assignment Submitted!" (lines 494 to 500).
\<close>

definition showSession :: "HomeworkSession option \<Rightarrow> page \<Rightarrow> page" where
  "showSession sessionData pg =
     (case sessionData of
        None \<Rightarrow> pg
      | Some sd \<Rightarrow>
          (if is_completed sd
           then pg\<lparr>session := Some sd, currentQuestion := current_question_index sd,
                  isSubmitted := True\<rparr>
           else pg\<lparr>session := Some sd, currentQuestion := current_question_index sd\<rparr>))"

section \<open>Sample data for the worked examples\<close>

text \<open>The second question of \<open>mockAssignment\<close>, and the assignment itself.\<close>

definition q2 :: HomeworkQuestion where
  "q2 = \<lparr> q_id = ''q2-uuid-mock'', q_assignment_id = 1, question_type = ShortAnswer,
          correct_answer = Some (AnswerText ''Fish''), points = 5 \<rparr>"

definition mockAssignment :: AssignmentWithQuestions where
  "mockAssignment = \<lparr> a_id = 1, title = ''Science Quiz - Living Things'',
                      questions = [q1, q2, q3], total_points = 20 \<rparr>"

text \<open>
  Two texts that \<open>handleTickboxAnswer\<close> produces with \<open>JSON.stringify\<close>, and what
  \<open>JSON.parse\<close> makes of them; \<open>sampleJSON\<close> is \<open>JSON.parse\<close> cut down to these two texts.
\<close>

definition treeFlowerText :: string where
  \<open>treeFlowerText = ''["Tree","Flower"]''\<close>

definition flowerTreeDogText :: string where
  \<open>flowerTreeDogText = ''["Flower","Tree","Dog"]''\<close>

definition sampleJSON :: "string \<Rightarrow> json option" where
  "sampleJSON s =
     (if s = treeFlowerText then Some (JArray [JString ''Tree'', JString ''Flower''])
      else if s = flowerTreeDogText
        then Some (JArray [JString ''Flower'', JString ''Tree'', JString ''Dog''])
      else None)"

text \<open>
  A transient error, a backend without rows, a backend that holds one session of the
  mock student at question index 2, and the page as it stands once assignment 1 and
  \<open>mockSession\<close> are loaded.
\<close>

definition outage :: PostgrestError where
  "outage = \<lparr> code = ''503'', message = ''Network timeout'' \<rparr>"

definition emptyStore :: store where
  "emptyStore = \<lparr> homework_sessions = [], homework_responses = [], submissions = [],
                  current_user = Some mockUser, faults = [] \<rparr>"

definition startedStore :: store where
  "startedStore =
     emptyStore\<lparr>homework_sessions := [mockSession\<lparr>current_question_index := 2\<rparr>]\<rparr>"

definition startedPage :: page where
  "startedPage = \<lparr> assignment = Some mockAssignment, session = Some mockSession,
                   currentQuestion = 0, answers = Map.empty, isSubmitting = False,
                   isSubmitted = False, loading = False, error = None \<rparr>"

text \<open>
  The backend that holds \<open>mockSession\<close> as the page has loaded it, behind the network
  with latency and with no write in flight.
\<close>

definition quietNetwork :: queued where
  "quietNetwork =
     \<lparr> backend = emptyStore\<lparr>homework_sessions := [mockSession]\<rparr>, in_flight = [] \<rparr>"

text \<open>
  The replies that the module treats as a failed write: a thrown exception, or a reply
  that carries an error.
\<close>

fun failed :: "'a reply \<Rightarrow> bool" where
  "failed Throws = True"
| "failed (Reply d (Some e)) = True"
| "failed (Reply d None) = False"

section \<open>Auxiliary facts\<close>

lemmas example_defs =
  emptyStore_def startedStore_def mockSession_def mockUser_def outage_def memoryGateway_def
  request_def forPair_def createSession_def freshId_def applyPatch_def noPatch_def

text \<open>An integer of at most 53 bits is a double as it stands; a longer one is rounded.\<close>

lemma excessBits_small:
  assumes "m < 2 ^ 53"
  shows "excessBits m = 0"
  using assms by (subst excessBits.simps) simp

lemma excessBits_one_more:
  assumes "\<not> m < 2 ^ 53" and "m div 2 < 2 ^ 53"
  shows "excessBits m = 1"
  using assms by (subst excessBits.simps) (simp add: excessBits_small)

lemma toDouble_small:
  assumes "\<bar>i\<bar> < 2 ^ 53"
  shows "toDouble i = i"
proof -
  have "int (nat \<bar>i\<bar>) < int (2 ^ 53)"
    using assms by simp
  then have "nat \<bar>i\<bar> < 2 ^ 53"
    by (simp only: of_nat_less_iff)
  then have "excessBits (nat \<bar>i\<bar>) = 0"
    by (rule excessBits_small)
  then show ?thesis
    by (simp add: toDouble_def Let_def mult_sgn_abs)
qed

lemma toDouble_rounds_to_even:
  "toDouble 9007199254740993 = 9007199254740992
   \<and> toDouble 9007199254740995 = 9007199254740996
   \<and> toDouble (- 9007199254740995) = - 9007199254740996
   \<and> toDouble 9007199254740994 = 9007199254740994"
  by (simp add: toDouble_def Let_def excessBits_one_more)

lemma parse_one: "parseInt10 ''1'' = Num 1"
  by (simp add: parseInt10_def isWhiteSpace_def isDigit_def digitValue_def toDouble_small)

lemma has_strings: "has (map JString xs) (JString a) = (a \<in> set xs)"
  by (induction xs) (auto simp: has_def)

lemma every_has_strings:
  "list_all (has (map JString xs)) (map JString ys) = (set ys \<subseteq> set xs)"
  by (induction ys) (auto simp: has_strings)

lemma sample_parse_all_three:
  "sampleJSON flowerTreeDogText = Some (JArray (map JString [''Flower'', ''Tree'', ''Dog'']))"
  by (simp add: sampleJSON_def flowerTreeDogText_def treeFlowerText_def)

lemma sample_parse_two:
  "sampleJSON treeFlowerText = Some (JArray (map JString [''Tree'', ''Flower'']))"
  by (simp add: sampleJSON_def)

lemma same_selection_other_order:
  "set [''Flower'', ''Tree'', ''Dog''] = set [''Tree'', ''Dog'', ''Flower'']"
  by code_simp

lemma selection_without_dog:
  "set [''Tree'', ''Flower''] \<noteq> set [''Tree'', ''Dog'', ''Flower'']"
  by code_simp

lemma padded_lower_case_matches:
  "toLowerCase (trim ''  water and sunlight '') = toLowerCase (trim ''Water and sunlight'')"
  by code_simp

lemma other_option_differs:
  "toLowerCase (trim ''Only water'') \<noteq> toLowerCase (trim ''Water and sunlight'')"
  by code_simp

text \<open>White space around a text does not change what \<open>trim\<close> returns.\<close>

lemma dropWhile_skips_prefix:
  assumes "list_all P xs"
  shows "dropWhile P (xs @ ys) = dropWhile P ys"
  using assms by (induction xs) simp_all

lemma trim_padding:
  assumes l: "list_all isWhiteSpace l" and t: "list_all isWhiteSpace t"
  shows "trim (l @ r @ t) = trim r"
proof -
  have tail: "dropWhile isWhiteSpace (rev (dropWhile isWhiteSpace (r @ t)))
                = dropWhile isWhiteSpace (rev (dropWhile isWhiteSpace r))"
  proof (cases "list_all isWhiteSpace r")
    case True
    then have "\<forall>x \<in> set (r @ t). isWhiteSpace x"
      using t by (auto simp: list_all_iff)
    then have a: "dropWhile isWhiteSpace (r @ t) = []"
      by (simp only: dropWhile_eq_Nil_conv)
    have "\<forall>x \<in> set r. isWhiteSpace x"
      using True by (simp add: list_all_iff)
    then have b: "dropWhile isWhiteSpace r = []"
      by (simp only: dropWhile_eq_Nil_conv)
    show ?thesis by (simp only: a b)
  next
    case False
    then obtain x where "x \<in> set r" and "\<not> isWhiteSpace x"
      by (auto simp: list_all_iff)
    then have "dropWhile isWhiteSpace (r @ t) = dropWhile isWhiteSpace r @ t"
      by (rule dropWhile_append1)
    moreover have "list_all isWhiteSpace (rev t)"
      using t by (simp add: list_all_iff)
    ultimately show ?thesis
      by (simp add: dropWhile_skips_prefix)
  qed
  have "dropWhile isWhiteSpace (l @ r @ t) = dropWhile isWhiteSpace (r @ t)"
    using l by (rule dropWhile_skips_prefix)
  with tail show ?thesis
    by (simp add: trim_def)
qed

section \<open>Auto-grading\<close>

text \<open>
  Claim C8. For a multiple-choice question whose correct answer is the string \<open>c\<close>, the
  response \<open>r\<close> is marked correct if and only if \<open>r\<close>, trimmed and lower-cased, equals
  \<open>c\<close>, trimmed and lower-cased; the points earned are the points of the question when
  it is correct and zero otherwise.
\<close>

theorem multiple_choice_grading:
  assumes "question_type q = MultipleChoice"
      and "correct_answer q = Some (AnswerText c)"
  shows "autoGrade JSON_parse q r =
           (Some (toLowerCase (trim r) = toLowerCase (trim c)),
            if toLowerCase (trim r) = toLowerCase (trim c) then points q else 0)"
  using assms by (simp add: autoGrade_def Let_def)

text \<open>
  On the first mock question: \<open>water and sunlight\<close> with blanks around it earns the 5
  points against \<open>Water and sunlight\<close>, and \<open>Only water\<close> earns none.
\<close>

theorem multiple_choice_grading_witness:
  "autoGrade sampleJSON q1 ''  water and sunlight '' = (Some True, 5)
   \<and> autoGrade sampleJSON q1 ''Only water'' = (Some False, 0)"
proof -
  have t: "question_type q1 = MultipleChoice"
    by (simp add: q1_def)
  have c: "correct_answer q1 = Some (AnswerText ''Water and sunlight'')"
    by (simp add: q1_def)
  have p: "points q1 = 5"
    by (simp add: q1_def)
  have g1: "autoGrade sampleJSON q1 ''  water and sunlight '' = (Some True, 5)"
    using multiple_choice_grading [OF t c, of sampleJSON "''  water and sunlight ''"]
      padded_lower_case_matches p
    by simp
  have g2: "autoGrade sampleJSON q1 ''Only water'' = (Some False, 0)"
    using multiple_choice_grading [OF t c, of sampleJSON "''Only water''"]
      other_option_differs p
    by simp
  from g1 g2 show ?thesis by simp
qed

text \<open>Padding a multiple-choice response with white space does not change its grade.\<close>

lemma multiple_choice_ignores_padding:
  assumes "question_type q = MultipleChoice"
      and "list_all isWhiteSpace l" and "list_all isWhiteSpace t"
  shows "autoGrade P q (l @ r @ t) = autoGrade P q r"
  using assms by (simp add: autoGrade_def trim_padding)

text \<open>
  Claim C7. For a tickbox question, when the response parses to the array of strings
  \<open>selected\<close> and the correct answers are the strings \<open>correct\<close>, the response is marked
  correct if and only if the set of \<open>selected\<close> equals the set of \<open>correct\<close>; the points
  earned are the points of the question when it is correct and zero otherwise. The
  grade depends on \<open>selected\<close> through its set only, hence not on the order of selection.
\<close>

theorem tickbox_grading:
  assumes "question_type q = Tickbox"
      and "JSON_parse r = Some (JArray (map JString selected))"
      and "correctAnswersOf JSON_parse (correct_answer q) = Some (JArray (map JString correct))"
  shows "autoGrade JSON_parse q r =
           (Some (set selected = set correct),
            if set selected = set correct then points q else 0)"
  using assms
  by (auto simp: autoGrade_def tickboxIsCorrect_def every_has_strings)

text \<open>
  On the third mock question, whose correct answers are Tree, Dog and Flower: the
  selection Flower, Tree, Dog earns the 10 points, the selection Tree, Flower none.
\<close>

theorem tickbox_grading_witness:
  "autoGrade sampleJSON q3 flowerTreeDogText = (Some True, 10)
   \<and> autoGrade sampleJSON q3 treeFlowerText = (Some False, 0)"
proof -
  have t: "question_type q3 = Tickbox"
    by (simp add: q3_def)
  have c: "correctAnswersOf sampleJSON (correct_answer q3)
             = Some (JArray (map JString [''Tree'', ''Dog'', ''Flower'']))"
    by (simp add: q3_def correctAnswersOf_def)
  have p: "points q3 = 10"
    by (simp add: q3_def)
  have g1: "autoGrade sampleJSON q3 flowerTreeDogText = (Some True, 10)"
    using tickbox_grading [OF t sample_parse_all_three c] same_selection_other_order p
    by simp
  have g2: "autoGrade sampleJSON q3 treeFlowerText = (Some False, 0)"
    using tickbox_grading [OF t sample_parse_two c] selection_without_dog p
    by simp
  from g1 g2 show ?thesis by simp
qed

text \<open>
  A response that is not the text of an array is graded incorrect with no points, and
  no exception leaves the grading.
\<close>

lemma tickbox_malformed_is_incorrect:
  assumes "question_type q = Tickbox" and "JSON_parse r = None"
  shows "autoGrade JSON_parse q r = (Some False, 0)"
  using assms by (simp add: autoGrade_def tickboxIsCorrect_def)

lemma every_needs_an_array:
  assumes "\<forall>xs. v \<noteq> JArray xs"
  shows "every v p = None"
  using assms by (cases v) simp_all

lemma tickbox_not_an_array_is_incorrect:
  assumes "question_type q = Tickbox" and "JSON_parse r = Some v" and "\<forall>xs. v \<noteq> JArray xs"
  shows "autoGrade JSON_parse q r = (Some False, 0)"
proof -
  have "tickboxIsCorrect JSON_parse q r = None"
    using assms(2,3)
    by (simp add: tickboxIsCorrect_def every_needs_an_array bind_eq_None_conv)
  with assms(1) show ?thesis
    by (simp add: autoGrade_def)
qed

text \<open>
  A multiple-choice question without a correct answer is compared with the empty
  string, and the other question types are not graded.
\<close>

lemma multiple_choice_without_answer:
  assumes "question_type q = MultipleChoice" and "correct_answer q = None"
  shows "autoGrade JSON_parse q r =
           (Some (trim r = []), if trim r = [] then points q else 0)"
  using assms by (simp add: autoGrade_def Let_def toLowerCase_def trim_def)

lemma ungraded_types:
  assumes "question_type q \<noteq> MultipleChoice" and "question_type q \<noteq> Tickbox"
  shows "autoGrade JSON_parse q r = (None, 0)"
  using assms by (simp add: autoGrade_def)

section \<open>Saving a response\<close>

text \<open>
  Whatever the client does, a save with a numeric assignment identifier is one call of
  the upsert chain: the result says whether that call succeeded, and the state is the
  one this single call left.
\<close>

lemma save_is_one_write:
  assumes "numericId a = Num n"
  shows "saveHomeworkResponse P gw s q a r qu sid st =
           (\<not> failed (fst (responses_upsert gw (buildResponseData P s q n r qu sid) st)),
            snd (responses_upsert gw (buildResponseData P s q n r qu sid) st))"
proof (cases "responses_upsert gw (buildResponseData P s q n r qu sid) st")
  case (Pair rep st')
  then show ?thesis
    using assms
    by (cases rep rule: failed.cases) (simp_all add: saveHomeworkResponse_def)
qed

text \<open>An identifier that is not a number ends the save before any call.\<close>

lemma save_rejects_invalid_id:
  assumes "numericId a = NaN"
  shows "saveHomeworkResponse P gw s q a r qu sid st = (False, st)"
  using assms by (simp add: saveHomeworkResponse_def)

text \<open>No path of \<open>handleAnswer\<close> writes the \<open>error\<close> cell of the page.\<close>

lemma handleAnswer_keeps_error:
  "error (fst (handleAnswer P gw opt (pg, st))) = error pg"
  by (simp add: handleAnswer_def Let_def
      split: prod.splits option.splits reply.splits)




text \<open>
  The same holds on the backend that keeps rows, when it is healthy: the upsert on the
  key (student, question, assignment) replaces the row it finds.
\<close>

lemma upsertBy_twice:
  assumes "same x x"
  shows "upsertBy same x (upsertBy same x ys) = upsertBy same x ys"
  using assms by (induction ys) simp_all

lemma memory_save_twice:
  assumes "faults st = []"
  shows "saveHomeworkResponse P memoryGateway s q a r qu sid
           (snd (saveHomeworkResponse P memoryGateway s q a r qu sid st))
         = saveHomeworkResponse P memoryGateway s q a r qu sid st"
  using assms
  by (cases "numericId a")
     (simp_all add: saveHomeworkResponse_def memoryGateway_def request_def upsertBy_twice
        sameResponseKey_def)

text \<open>
  Claim C10. For a fixed storage, \<open>getStudentHomeworkResponsesMap\<close> returns the same map
  for any two pairs of arguments; and once any student has saved an answer to a
  question on the stub, under whatever assignment number, the map read for any other
  student and assignment holds that answer under the question identifier, unless
  that identifier is \<open>__proto__\<close>.
\<close>

theorem responses_map_ignores_its_arguments:
  "getStudentHomeworkResponsesMap s1 a1 st = getStudentHomeworkResponsesMap s2 a2 st
   \<and> (q \<noteq> ''__proto__'' \<longrightarrow>
        getStudentHomeworkResponsesMap s2 a2
          (snd (saveHomeworkResponse P mockSupabase s1 q (IdNumber (Num n)) r qu sid st)) q
        = Some (Text r))"
  by (simp add: getStudentHomeworkResponsesMap_def saveHomeworkResponse_def
      mockSupabase_def mock_upsert_def assignProperty_def buildResponseData_def
      split: prod.splits)

text \<open>
  What the mock student has saved for the first question under assignment 1 is read
  back for a second student under assignment 2.
\<close>

theorem responses_map_ignores_its_arguments_witness:
  "getStudentHomeworkResponsesMap ''student-user-123'' (IdNumber (Num 1)) Map.empty
     = getStudentHomeworkResponsesMap ''student-user-456'' (IdNumber (Num 2)) Map.empty
   \<and> getStudentHomeworkResponsesMap ''student-user-456'' (IdNumber (Num 2))
        (snd (saveHomeworkResponse sampleJSON mockSupabase ''student-user-123''
                ''q1-uuid-mock'' (IdNumber (Num 1)) ''Only water'' q1 None Map.empty))
        ''q1-uuid-mock''
     = Some (Text ''Only water'')"
proof -
  have k: "''q1-uuid-mock'' \<noteq> ''__proto__''"
    by simp
  from responses_map_ignores_its_arguments [of "''student-user-123''" "IdNumber (Num 1)"
      Map.empty "''student-user-456''" "IdNumber (Num 2)" "''q1-uuid-mock''" sampleJSON
      1 "''Only water''" q1 None] k
  show ?thesis by blast
qed

text \<open>
  Claim C1, at a failing input. The backend fails the next call, with an error reply
  or by throwing, and would accept every later one. The save makes that one call and
  returns \<open>false\<close>, with nothing stored, although a second attempt on the state it
  leaves succeeds. \<open>handleAnswer\<close> on the same
  backend shows the answer in its local \<open>answers\<close>, leaves \<open>error\<close> empty and leaves the
  table of responses empty.
\<close>

theorem save_gives_up_after_one_failed_write:
  "saveHomeworkResponse P memoryGateway ''student-user-123'' ''q1-uuid-mock''
       (IdNumber (Num 1)) ''Water and sunlight'' q1 (Some ''session-123-uuid'')
       (emptyStore\<lparr>faults := [Failure outage]\<rparr>)
     = (False, emptyStore)
   \<and> saveHomeworkResponse P memoryGateway ''student-user-123'' ''q1-uuid-mock''
       (IdNumber (Num 1)) ''Water and sunlight'' q1 (Some ''session-123-uuid'')
       (emptyStore\<lparr>faults := [Timeout]\<rparr>)
     = (False, emptyStore)
   \<and> fst (saveHomeworkResponse P memoryGateway ''student-user-123'' ''q1-uuid-mock''
       (IdNumber (Num 1)) ''Water and sunlight'' q1 (Some ''session-123-uuid'') emptyStore)
     = True
   \<and> handleAnswer P memoryGateway (StringOption ''Water and sunlight'')
        (startedPage, emptyStore\<lparr>faults := [Failure outage]\<rparr>)
     = (startedPage\<lparr>answers := [''q1-uuid-mock'' \<mapsto> Text ''Water and sunlight'']\<rparr>,
        emptyStore)
   \<and> error startedPage = None
   \<and> homework_responses emptyStore = []"
  by (simp add: Let_def saveHomeworkResponse_def handleAnswer_def question_def
      startedPage_def mockAssignment_def q1_def example_defs)

text \<open>
  On the stub, whose upsert takes effect during the call, a later save of the same
  question replaces the earlier answer.
\<close>

lemma later_save_replaces_earlier:
  assumes "numericId a = Num n" and "q \<noteq> ''__proto__''"
  shows "snd (saveHomeworkResponse P mockSupabase s q a r2 qu sid
            (snd (saveHomeworkResponse P mockSupabase s q a r1 qu sid st))) q
         = Some (Text r2)"
  using assms
  by (simp add: saveHomeworkResponse_def mockSupabase_def mock_upsert_def
      assignProperty_def buildResponseData_def split: prod.splits)

text \<open>
  Behind a network with latency every save puts its write in flight, whatever is in
  flight already, and the write that lands last is the one that stays.
\<close>

lemma buildResponseData_key:
  "r_student_id (buildResponseData P s q n r qu sid) = s
   \<and> r_question_id (buildResponseData P s q n r qu sid) = q
   \<and> r_assignment_id (buildResponseData P s q n r qu sid) = n
   \<and> response_text (buildResponseData P s q n r qu sid) = r"
  by (simp add: buildResponseData_def split: prod.splits)

lemma save_puts_write_in_flight:
  "saveHomeworkResponse P queueingGateway s q (IdNumber (Num n)) r qu sid st =
     (True, st\<lparr>in_flight := in_flight st @ [buildResponseData P s q n r qu sid]\<rparr>)"
  by (simp add: saveHomeworkResponse_def queueingGateway_def)

lemma queue_getUser:
  "auth_getUser queueingGateway st = (Reply (current_user (backend st)) None, st)"
  by (simp add: queueingGateway_def memoryGateway_def onBackend_def)

lemma handleAnswer_puts_write_in_flight:
  assumes "question pg = Some q" and "assignment pg = Some a" and "session pg = Some sess"
      and "current_user (backend st) = Some u"
  shows "handleAnswer P queueingGateway opt (pg, st) =
           (pg\<lparr>answers := (answers pg)(q_id q \<mapsto> Text (getOptionText opt))\<rparr>,
            st\<lparr>in_flight := in_flight st @
                 [buildResponseData P (u_id u) (q_id q) (a_id a) (getOptionText opt) q
                    (Some (s_id sess))]\<rparr>)"
  using assms
  by (simp add: handleAnswer_def Let_def queue_getUser save_puts_write_in_flight)

text \<open>
  Claim C6, at a failing input. On the loaded page the student picks \<open>Only water\<close> for
  the first question and then \<open>Water and sunlight\<close>. Both writes are in flight at once,
  for the same student, question and assignment. The second lands first and the first
  lands last: the table then holds \<open>Only water\<close>, while the page shows
  \<open>Water and sunlight\<close> and no error.
\<close>

theorem stale_write_lands_last_and_stays:
  "(case handleAnswer P queueingGateway (StringOption ''Only water'')
           (startedPage, quietNetwork) of
      (pageA, stA) \<Rightarrow>
    case handleAnswer P queueingGateway (StringOption ''Water and sunlight'')
           (pageA, stA) of
      (pageB, stB) \<Rightarrow>
        map response_text (in_flight stB) = [''Only water'', ''Water and sunlight'']
        \<and> map r_question_id (in_flight stB) = [''q1-uuid-mock'', ''q1-uuid-mock'']
        \<and> map r_student_id (in_flight stB) = [''student-user-123'', ''student-user-123'']
        \<and> map response_text (homework_responses (backend (land 0 (land 1 stB))))
            = [''Only water'']
        \<and> in_flight (land 0 (land 1 stB)) = []
        \<and> answers pageB ''q1-uuid-mock'' = Some (Text ''Water and sunlight'')
        \<and> error pageB = None)"
proof -
  have q: "question startedPage = Some q1"
    by (simp add: question_def startedPage_def mockAssignment_def)
  have a: "assignment startedPage = Some mockAssignment"
    by (simp add: startedPage_def)
  have s: "session startedPage = Some mockSession"
    by (simp add: startedPage_def)
  have u: "current_user (backend quietNetwork) = Some mockUser"
    by (simp add: quietNetwork_def emptyStore_def)
  have stepA: "handleAnswer P queueingGateway (StringOption ''Only water'')
                 (startedPage, quietNetwork) =
               (startedPage\<lparr>answers := [''q1-uuid-mock'' \<mapsto> Text ''Only water'']\<rparr>,
                quietNetwork\<lparr>in_flight :=
                  [buildResponseData P ''student-user-123'' ''q1-uuid-mock'' 1 ''Only water''
                     q1 (Some ''session-123-uuid'')]\<rparr>)"
    using handleAnswer_puts_write_in_flight [OF q a s u, of P "StringOption ''Only water''"]
    by (simp add: startedPage_def quietNetwork_def mockAssignment_def q1_def mockUser_def
        mockSession_def)
  have stepB: "handleAnswer P queueingGateway (StringOption ''Water and sunlight'')
                 (startedPage\<lparr>answers := [''q1-uuid-mock'' \<mapsto> Text ''Only water'']\<rparr>,
                  quietNetwork\<lparr>in_flight :=
                    [buildResponseData P ''student-user-123'' ''q1-uuid-mock'' 1 ''Only water''
                       q1 (Some ''session-123-uuid'')]\<rparr>) =
               (startedPage\<lparr>answers := [''q1-uuid-mock'' \<mapsto> Text ''Water and sunlight'']\<rparr>,
                quietNetwork\<lparr>in_flight :=
                  [buildResponseData P ''student-user-123'' ''q1-uuid-mock'' 1 ''Only water''
                     q1 (Some ''session-123-uuid''),
                   buildResponseData P ''student-user-123'' ''q1-uuid-mock'' 1
                     ''Water and sunlight'' q1 (Some ''session-123-uuid'')]\<rparr>)"
    using handleAnswer_puts_write_in_flight
      [of "startedPage\<lparr>answers := [''q1-uuid-mock'' \<mapsto> Text ''Only water'']\<rparr>" q1
        mockAssignment mockSession
        "quietNetwork\<lparr>in_flight :=
           [buildResponseData P ''student-user-123'' ''q1-uuid-mock'' 1 ''Only water''
              q1 (Some ''session-123-uuid'')]\<rparr>"
        mockUser P "StringOption ''Water and sunlight''"]
    by (simp add: question_def startedPage_def quietNetwork_def mockAssignment_def q1_def
        mockUser_def mockSession_def emptyStore_def)
  show ?thesis
    apply (simp only: stepA prod.case)
    apply (simp only: stepB prod.case)
    apply (simp add: land_def sameResponseKey_def buildResponseData_key quietNetwork_def
        emptyStore_def startedPage_def)
    done
qed

section \<open>Sessions\<close>

text \<open>
  \<open>getOrCreateHomeworkSession\<close> is its lookup followed by \<open>getOrCreate_resume\<close>.
\<close>

lemma getOrCreate_is_lookup_then_resume:
  assumes "numericId a = Num n"
  shows "getOrCreateHomeworkSession gw now s a st =
           getOrCreate_resume gw now s n
             (fst (sessions_select_maybeSingle gw s n st))
             (snd (sessions_select_maybeSingle gw s n st))"
  using assms by (simp add: getOrCreateHomeworkSession_def split: prod.splits)

text \<open>
  Whatever the client does: when the lookup replies with an error, the function goes
  on to the insert on the state that this one lookup left, and returns what the insert
  gives.
\<close>

lemma getOrCreate_inserts_after_failed_lookup:
  assumes "numericId a = Num n"
      and "sessions_select_maybeSingle gw s n st = (Reply d (Some e), st1)"
  shows "getOrCreateHomeworkSession gw now s a st =
           (case sessions_insert gw
                   \<lparr> n_student_id = s, n_assignment_id = n, n_current_question_index = 0,
                     n_is_completed = False, n_started_at = now, n_last_activity = now \<rparr> st1 of
              (Throws, st') \<Rightarrow> (None, st')
            | (Reply newSession (Some createError), st') \<Rightarrow> (None, st')
            | (Reply newSession None, st') \<Rightarrow> (newSession, st'))"
  using assms
  by (simp add: getOrCreateHomeworkSession_def getOrCreate_resume_def split: option.splits)

text \<open>
  Whatever the client does: once the lookup has answered without a row, the resumed
  call inserts, on the state as it then is, without looking again.
\<close>

lemma resume_inserts_when_nothing_was_found:
  "getOrCreate_resume gw now s n (Reply None e) st =
     (case sessions_insert gw
             \<lparr> n_student_id = s, n_assignment_id = n, n_current_question_index = 0,
               n_is_completed = False, n_started_at = now, n_last_activity = now \<rparr> st of
        (Throws, st') \<Rightarrow> (None, st')
      | (Reply newSession (Some createError), st') \<Rightarrow> (None, st')
      | (Reply newSession None, st') \<Rightarrow> (newSession, st'))"
  by (simp add: getOrCreate_resume_def)

text \<open>
  Claim C3, at a failing input. Two first loads of the mock student for assignment 1
  run against a backend without rows, and both lookups are answered before either call
  resumes. Each call then inserts: the calls return two different session identifiers,
  and the table holds two rows for the pair.
\<close>

theorem racing_first_loads_create_two_sessions:
  "(case sessions_select_maybeSingle memoryGateway ''student-user-123'' 1 emptyStore of
      (lookup1, st1) \<Rightarrow>
    case sessions_select_maybeSingle memoryGateway ''student-user-123'' 1 st1 of
      (lookup2, st2) \<Rightarrow>
    case getOrCreate_resume memoryGateway ''2025-10-01T09:00:00Z'' ''student-user-123'' 1
           lookup1 st2 of
      (result1, st3) \<Rightarrow>
    case getOrCreate_resume memoryGateway ''2025-10-01T09:00:00Z'' ''student-user-123'' 1
           lookup2 st3 of
      (result2, st4) \<Rightarrow>
        map_option s_id result1 = Some ''session-''
        \<and> map_option s_id result2 = Some ''session-I''
        \<and> length (filter (forPair ''student-user-123'' 1) (homework_sessions st4)) = 2)"
  by (simp add: getOrCreate_resume_def example_defs)

text \<open>
  Claim C4, at a failing input. The backend holds a session of the mock student at
  question index 2. With a healthy backend the call returns that session. When the
  lookup alone fails, the call returns a new session at index 0 under a new
  identifier, the table holds both rows, and the list of faults is used up by the one
  lookup: no second lookup was made. When the lookup throws instead, the call returns
  \<open>null\<close> and leaves the table as it was, again after one lookup.
\<close>

theorem failed_lookup_shadows_stored_session:
  "fst (getOrCreateHomeworkSession memoryGateway ''2025-10-01T09:00:00Z'' ''student-user-123''
          (IdNumber (Num 1)) startedStore)
     = Some (mockSession\<lparr>current_question_index := 2\<rparr>)
   \<and> map_option current_question_index
        (fst (getOrCreateHomeworkSession memoryGateway ''2025-10-01T09:00:00Z''
           ''student-user-123'' (IdNumber (Num 1)) (startedStore\<lparr>faults := [Failure outage]\<rparr>)))
     = Some 0
   \<and> map_option s_id
        (fst (getOrCreateHomeworkSession memoryGateway ''2025-10-01T09:00:00Z''
           ''student-user-123'' (IdNumber (Num 1)) (startedStore\<lparr>faults := [Failure outage]\<rparr>)))
     = Some ''session-I''
   \<and> map s_id (homework_sessions
        (snd (getOrCreateHomeworkSession memoryGateway ''2025-10-01T09:00:00Z''
           ''student-user-123'' (IdNumber (Num 1)) (startedStore\<lparr>faults := [Failure outage]\<rparr>))))
     = [''session-123-uuid'', ''session-I'']
   \<and> faults
        (snd (getOrCreateHomeworkSession memoryGateway ''2025-10-01T09:00:00Z''
           ''student-user-123'' (IdNumber (Num 1)) (startedStore\<lparr>faults := [Failure outage]\<rparr>)))
     = []
   \<and> getOrCreateHomeworkSession memoryGateway ''2025-10-01T09:00:00Z''
           ''student-user-123'' (IdNumber (Num 1)) (startedStore\<lparr>faults := [Timeout]\<rparr>)
     = (None, startedStore)"
  by (simp add: getOrCreateHomeworkSession_def getOrCreate_resume_def example_defs)

text \<open>
  On the stub the lookup chain throws, so every call of \<open>getOrCreateHomeworkSession\<close>
  returns \<open>null\<close>.
\<close>

lemma stub_getOrCreate_returns_null:
  "getOrCreateHomeworkSession mockSupabase now s a st = (None, st)"
  by (cases "numericId a")
     (simp_all add: getOrCreateHomeworkSession_def getOrCreate_resume_def mockSupabase_def)

text \<open>
  Claim C5, at a failing input, on the stub client. The progress update to index 2
  reports success and changes nothing. The next \<open>getOrCreateHomeworkSession\<close> of the
  mock student returns \<open>null\<close>; and the stub's lookup with a single filter answers with
  \<open>mockSession\<close>, whose index is 0.
\<close>

theorem stub_loses_progress:
  "updateHomeworkSessionProgress mockSupabase now ''session-123-uuid'' 2 False st = (True, st)
   \<and> getOrCreateHomeworkSession mockSupabase now' ''student-user-123'' (IdString ''1'') st
     = (None, st)
   \<and> mock_select_eq_maybeSingle ''homework_sessions'' = Reply (Some mockSession) None
   \<and> current_question_index mockSession = 0"
  by (simp add: updateHomeworkSessionProgress_def getOrCreateHomeworkSession_def
      getOrCreate_resume_def mockSupabase_def mock_update_eq_def
      mock_select_eq_maybeSingle_def mockSession_def parse_one)

text \<open>
  On the backend that keeps rows the same two functions do resume: after the update
  to index 2 the next \<open>getOrCreateHomeworkSession\<close> returns the session at index 2.
\<close>

lemma memory_backend_resumes_progress:
  "(case updateHomeworkSessionProgress memoryGateway ''2025-10-01T09:00:00Z''
           ''session-123-uuid'' 2 False (emptyStore\<lparr>homework_sessions := [mockSession]\<rparr>) of
      (ok, st1) \<Rightarrow>
    case getOrCreateHomeworkSession memoryGateway ''2025-10-01T09:05:00Z''
           ''student-user-123'' (IdString ''1'') st1 of
      (resumed, st2) \<Rightarrow>
        ok = True \<and> map_option s_id resumed = Some ''session-123-uuid''
        \<and> map_option current_question_index resumed = Some 2)"
  by (simp add: updateHomeworkSessionProgress_def getOrCreateHomeworkSession_def
      getOrCreate_resume_def example_defs parse_one)

section \<open>Submission\<close>

text \<open>
  Whatever the client does: in every submit call in which the session-completion
  update resolves and the submission upsert that follows fails, the call returns
  \<open>false\<close>, and the backend is in the state that the update followed by the upsert
  left. The update is made first and is not undone.
\<close>

lemma submit_failure_leaves_session_write_in_place:
  assumes "numericId a = Num n"
      and "sessions_update_by_pair gw
             (noPatch\<lparr>p_is_completed := Some True, p_completed_at := Some now\<rparr>) s n st
           = (Reply d e, st1)"
      and "submissions_upsert gw
             \<lparr> sub_student_id = s, sub_assignment_id = n, score = 0.75, submitted_at = now \<rparr> st1
           = (r, st2)"
      and "failed r"
  shows "submitHomeworkAssignment gw now s a st = (False, st2)"
  using assms
  by (cases r rule: failed.cases) (simp_all add: submitHomeworkAssignment_def)

text \<open>
  Claim C2, at a failing input. The backend holds the open session of the mock student;
  the session update succeeds and the submission upsert fails. The call returns
  \<open>false\<close> and no submission is stored, yet the completion flag of the session, \<open>false\<close>
  before the call, is \<open>true\<close> after it. \<open>handleSubmit\<close> on the same backend asks the
  student to try again; and the next load of the page gets the session as completed
  and shows the assignment as submitted.
\<close>

theorem submit_completes_session_before_failed_submission:
  "fst (submitHomeworkAssignment memoryGateway ''2025-10-01T09:00:00Z'' ''student-user-123''
          (IdNumber (Num 1)) (startedStore\<lparr>faults := [Healthy, Failure outage]\<rparr>)) = False
   \<and> map is_completed (homework_sessions startedStore) = [False]
   \<and> map is_completed (homework_sessions (snd (submitHomeworkAssignment memoryGateway
          ''2025-10-01T09:00:00Z'' ''student-user-123'' (IdNumber (Num 1))
          (startedStore\<lparr>faults := [Healthy, Failure outage]\<rparr>)))) = [True]
   \<and> submissions (snd (submitHomeworkAssignment memoryGateway
          ''2025-10-01T09:00:00Z'' ''student-user-123'' (IdNumber (Num 1))
          (startedStore\<lparr>faults := [Healthy, Failure outage]\<rparr>))) = []
   \<and> error (fst (handleSubmit memoryGateway ''2025-10-01T09:00:00Z''
          (startedPage, startedStore\<lparr>faults := [Healthy, Failure outage]\<rparr>)))
       = Some submitFailed
   \<and> isSubmitted (showSession
          (fst (getOrCreateHomeworkSession memoryGateway ''2025-10-01T09:10:00Z''
                  ''student-user-123'' (IdNumber (Num 1))
                  (snd (handleSubmit memoryGateway ''2025-10-01T09:00:00Z''
                          (startedPage, startedStore\<lparr>faults := [Healthy, Failure outage]\<rparr>)))))
          startedPage)
       = True"
  by (simp add: submitHomeworkAssignment_def handleSubmit_def showSession_def
      getOrCreateHomeworkSession_def getOrCreate_resume_def startedPage_def
      mockAssignment_def example_defs)

text \<open>
  On the stub the update chain throws, so every call of \<open>submitHomeworkAssignment\<close>
  returns \<open>false\<close> before any write.
\<close>

lemma stub_submit_always_fails:
  "submitHomeworkAssignment mockSupabase now s a st = (False, st)"
  by (cases "numericId a") (simp_all add: submitHomeworkAssignment_def mockSupabase_def)

text \<open>\<open>handleSubmit\<close> puts a failed submission on the page.\<close>

lemma handleSubmit_shows_failure:
  assumes "assignment pg = Some a" and "session pg = Some sess"
      and "auth_getUser gw st = (Reply (Some u) e, st1)"
      and "fst (submitHomeworkAssignment gw now (u_id u) (IdNumber (Num (a_id a))) st1) = False"
  shows "error (fst (handleSubmit gw now (pg, st))) = Some submitFailed"
  using assms
  by (cases "submitHomeworkAssignment gw now (u_id u) (IdNumber (Num (a_id a))) st1")
     (simp add: handleSubmit_def)

end
